theory Spec2Isabelle
  imports Main "HOL-Library.Multiset"
begin

section \<open>Data model (fileAnalyzer.ts)\<close>

text \<open>
  JavaScript numbers that the program only ever uses as integers (byte sizes, line and
  match counts, millisecond timestamps, thresholds) are modelled as \<open>int\<close>.
  \<open>Math.floor (a / b)\<close> for a positive \<open>b\<close> is \<open>a div b\<close> on \<open>int\<close>.
  The field \<open>size\<close> of the source is called \<open>fsize\<close> and \<open>type\<close> is called \<open>ftype\<close>.
\<close>

datatype health = Healthy | Warning | Critical

record FileMetrics =
  lines :: int
  fsize :: int
  complexity :: int
  lastModified :: int
  ftype :: string
  health :: health
  issues :: "string list"

record level =
  warning :: int
  critical :: int

record HealthThresholds =
  complexity_t :: level
  size_t :: level
  age_t :: level

section \<open>Rendering of integers in template strings\<close>

definition digit_char :: "nat \<Rightarrow> char" where
  "digit_char d = ''0123456789'' ! (d mod 10)"

fun show_nat :: "nat \<Rightarrow> string" where
  "show_nat n = (if n < 10 then [digit_char n] else show_nat (n div 10) @ [digit_char n])"

declare show_nat.simps [simp del]

definition show_int :: "int \<Rightarrow> string" where
  "show_int i = (if i < 0 then CHR ''-'' # show_nat (nat (- i)) else show_nat (nat i))"

section \<open>FileAnalyzer.assessHealth\<close>

text \<open>
  The classifier keeps two locals, \<open>healthScore\<close> and \<open>issues\<close>, and updates them in
  three consecutive checks. Each check is a function on the pair of the two.
  \<open>new Date()\<close> is the parameter \<open>now\<close> (milliseconds), first in every function
  that reads the clock.
\<close>

type_synonym assess_state = "int \<times> string list"

definition daysSinceModified :: "int \<Rightarrow> int \<Rightarrow> int" where
  "daysSinceModified now lm = (now - lm) div (1000 * 60 * 60 * 24)"

definition sizeKB :: "int \<Rightarrow> int" where
  "sizeKB sz = sz div 1024"

text \<open>The six issue strings (template literals of the source).\<close>

definition issueHighComplexity :: "int \<Rightarrow> string" where
  "issueHighComplexity c = ''High complexity ('' @ show_int c @ '')''"

definition issueModerateComplexity :: "int \<Rightarrow> string" where
  "issueModerateComplexity c = ''Moderate complexity ('' @ show_int c @ '')''"

definition issueLargeFile :: "int \<Rightarrow> string" where
  "issueLargeFile kb = ''Large file ('' @ show_int kb @ ''KB)''"

definition issueMediumFile :: "int \<Rightarrow> string" where
  "issueMediumFile kb = ''Medium file ('' @ show_int kb @ ''KB)''"

definition issueNotModified :: "int \<Rightarrow> string" where
  "issueNotModified days = ''Not modified for '' @ show_int days @ '' days''"

definition issueLastModified :: "int \<Rightarrow> string" where
  "issueLastModified days = ''Last modified '' @ show_int days @ '' days ago''"

definition checkComplexity :: "int \<Rightarrow> HealthThresholds \<Rightarrow> assess_state \<Rightarrow> assess_state" where
  "checkComplexity c th st =
     (if c \<ge> critical (complexity_t th)
      then (fst st + 2, snd st @ [issueHighComplexity c])
      else if c \<ge> warning (complexity_t th)
      then (fst st + 1, snd st @ [issueModerateComplexity c])
      else st)"

definition checkSize :: "int \<Rightarrow> HealthThresholds \<Rightarrow> assess_state \<Rightarrow> assess_state" where
  "checkSize kb th st =
     (if kb \<ge> critical (size_t th)
      then (fst st + 2, snd st @ [issueLargeFile kb])
      else if kb \<ge> warning (size_t th)
      then (fst st + 1, snd st @ [issueMediumFile kb])
      else st)"

definition checkAge :: "int \<Rightarrow> HealthThresholds \<Rightarrow> assess_state \<Rightarrow> assess_state" where
  "checkAge days th st =
     (if days \<ge> critical (age_t th)
      then (fst st + 1, snd st @ [issueNotModified days])
      else if days \<ge> warning (age_t th)
      then (fst st, snd st @ [issueLastModified days])
      else st)"

definition assessChecks ::
  "int \<Rightarrow> int \<Rightarrow> int \<Rightarrow> int \<Rightarrow> int \<Rightarrow> HealthThresholds \<Rightarrow> assess_state" where
  "assessChecks now lns sz c lm th =
     checkAge (daysSinceModified now lm) th
       (checkSize (sizeKB sz) th
         (checkComplexity c th (0, [])))"

definition healthScore ::
  "int \<Rightarrow> int \<Rightarrow> int \<Rightarrow> int \<Rightarrow> int \<Rightarrow> HealthThresholds \<Rightarrow> int" where
  "healthScore now lns sz c lm th = fst (assessChecks now lns sz c lm th)"

definition verdict :: "int \<Rightarrow> health" where
  "verdict score = (if score \<ge> 3 then Critical else if score \<ge> 1 then Warning else Healthy)"

definition assessHealth ::
  "int \<Rightarrow> int \<Rightarrow> int \<Rightarrow> int \<Rightarrow> int \<Rightarrow> HealthThresholds \<Rightarrow> health \<times> string list" where
  "assessHealth now lns sz c lm th =
     (let st = assessChecks now lns sz c lm th in (verdict (fst st), snd st))"

text \<open>The order of the verdicts, from best to worst.\<close>

fun severity :: "health \<Rightarrow> nat" where
  "severity Healthy = 0"
| "severity Warning = 1"
| "severity Critical = 2"

text \<open>The defaults of \<open>getHealthThresholds\<close>.\<close>

definition defaultThresholds :: HealthThresholds where
  "defaultThresholds =
     \<lparr> complexity_t = \<lparr> warning = 10, critical = 20 \<rparr>,
       size_t = \<lparr> warning = 500, critical = 1000 \<rparr>,
       age_t = \<lparr> warning = 30, critical = 90 \<rparr> \<rparr>"

section \<open>Strings, regular expressions and paths of the host\<close>

text \<open>
  File contents and paths are byte strings (UTF-8). The patterns of the source are ASCII,
  \<open>\b\<close> and the flag \<open>i\<close> (without \<open>u\<close>) only look at ASCII letters, digits and
  \<open>_\<close>, and a byte of a multi-byte UTF-8 sequence is never ASCII, so the counts over
  bytes are the counts over the UTF-16 code units of the decoded text.
  \<open>toLowerCase\<close> and \<open>toUpperCase\<close> are modelled on ASCII letters.
\<close>

definition isUpper :: "char \<Rightarrow> bool" where
  "isUpper c = (65 \<le> (of_char c :: nat) \<and> (of_char c :: nat) \<le> 90)"

definition isLower :: "char \<Rightarrow> bool" where
  "isLower c = (97 \<le> (of_char c :: nat) \<and> (of_char c :: nat) \<le> 122)"

definition isDigit :: "char \<Rightarrow> bool" where
  "isDigit c = (48 \<le> (of_char c :: nat) \<and> (of_char c :: nat) \<le> 57)"

definition isWordChar :: "char \<Rightarrow> bool" where
  "isWordChar c = (isUpper c \<or> isLower c \<or> isDigit c \<or> c = CHR ''_'')"

definition toLowerChar :: "char \<Rightarrow> char" where
  "toLowerChar c = (if isUpper c then char_of ((of_char c :: nat) + 32) else c)"

definition toUpperChar :: "char \<Rightarrow> char" where
  "toUpperChar c = (if isLower c then char_of ((of_char c :: nat) - 32) else c)"

definition toLowerCase :: "string \<Rightarrow> string" where
  "toLowerCase s = map toLowerChar s"

text \<open>
  \<open>content.match(/\bw\b/gi)\<close> for a keyword \<open>w\<close> of lower-case letters: the number of
  positions where \<open>w\<close> stands, in any case, between two word boundaries. Two such
  matches never overlap, so the left-to-right scan of the flag \<open>g\<close> finds each of them.
  \<open>prev\<close> says whether the character before the position is a word character.
\<close>

definition matchesWordAt :: "string \<Rightarrow> string \<Rightarrow> bool" where
  "matchesWordAt w s =
     (length w \<le> length s \<and> toLowerCase (take (length w) s) = w \<and>
      (case drop (length w) s of [] \<Rightarrow> True | c # _ \<Rightarrow> \<not> isWordChar c))"

fun countWordFrom :: "string \<Rightarrow> bool \<Rightarrow> string \<Rightarrow> nat" where
  "countWordFrom w prev [] = 0"
| "countWordFrom w prev (c # cs) =
     (if \<not> prev \<and> matchesWordAt w (c # cs) then 1 else 0) + countWordFrom w (isWordChar c) cs"

definition countWord :: "string \<Rightarrow> string \<Rightarrow> nat" where
  "countWord w content = countWordFrom w False content"

text \<open>\<open>content.match(/=>|{|}|\[|\]/g)\<close>: arrows and single brackets, left to right.\<close>

definition isBracket :: "char \<Rightarrow> bool" where
  "isBracket c = (c = CHR ''{'' \<or> c = CHR ''}'' \<or> c = CHR ''['' \<or> c = CHR '']'')"

fun countPunct :: "string \<Rightarrow> nat" where
  "countPunct [] = 0"
| "countPunct [c] = (if isBracket c then 1 else 0)"
| "countPunct (c # d # cs) =
     (if c = CHR ''='' \<and> d = CHR ''>'' then 1 + countPunct cs
      else if isBracket c then 1 + countPunct (d # cs)
      else countPunct (d # cs))"

text \<open>\<open>path.basename\<close>, \<open>path.extname\<close> and \<open>path.dirname\<close> of Node (POSIX flavour).\<close>

definition basename :: "string \<Rightarrow> string" where
  "basename p = rev (takeWhile (\<lambda>c. c \<noteq> CHR ''/'') (dropWhile (\<lambda>c. c = CHR ''/'') (rev p)))"

definition extname :: "string \<Rightarrow> string" where
  "extname p =
     (let b = basename p;
          suffix = takeWhile (\<lambda>c. c \<noteq> CHR ''.'') (rev b);
          pre = drop (Suc (length suffix)) (rev b)
      in if CHR ''.'' \<notin> set b \<or> pre = [] \<or> b = ''..'' then []
         else CHR ''.'' # rev suffix)"

definition dirname :: "string \<Rightarrow> string" where
  "dirname p =
     (if p = [] then ''.''
      else let hasRoot = (hd p = CHR ''/'');
               rest = dropWhile (\<lambda>c. c \<noteq> CHR ''/'')
                        (dropWhile (\<lambda>c. c = CHR ''/'') (rev (tl p)));
               end = length rest
           in if rest = [] then (if hasRoot then ''/'' else ''.'')
              else if hasRoot \<and> end = 1 then ''//''
              else take end p)"

section \<open>FileAnalyzer.calculateComplexity and getFileType\<close>

definition complexityPatterns :: "string list" where
  "complexityPatterns =
     [''if'', ''else'', ''for'', ''while'', ''switch'', ''case'', ''try'', ''catch'',
      ''function'', ''class'', ''interface'']"

definition languageSpecific :: "string \<Rightarrow> string \<Rightarrow> nat" where
  "languageSpecific content ext =
     (if ext = ''.ts'' \<or> ext = ''.js'' \<or> ext = ''.tsx'' \<or> ext = ''.jsx''
      then countWord ''async'' content + countWord ''await'' content
           + countWord ''promise'' content
      else if ext = ''.py''
      then countWord ''def'' content + countWord ''class'' content
           + countWord ''except'' content
      else 0)"

definition matchTotal :: "string \<Rightarrow> string \<Rightarrow> nat" where
  "matchTotal content ext =
     sum_list (map (\<lambda>w. countWord w content) complexityPatterns) + countPunct content
     + languageSpecific content ext"

definition calculateComplexity :: "string \<Rightarrow> string \<Rightarrow> int" where
  "calculateComplexity content ext = max 1 (int (matchTotal content ext) div 10)"

definition FILE_TYPE_ICONS :: "(string \<times> string) list" where
  "FILE_TYPE_ICONS =
     [(''.ts'', ''typescript''), (''.js'', ''javascript''), (''.tsx'', ''react''),
      (''.jsx'', ''react''), (''.py'', ''python''), (''.java'', ''java''),
      (''.cpp'', ''cpp''), (''.c'', ''c''), (''.cs'', ''csharp''), (''.php'', ''php''),
      (''.rb'', ''ruby''), (''.go'', ''go''), (''.rs'', ''rust''), (''.swift'', ''swift''),
      (''.kt'', ''kotlin''), (''.scala'', ''scala''), (''.dart'', ''dart''),
      (''.html'', ''html''), (''.css'', ''css''), (''.scss'', ''sass''),
      (''.sass'', ''sass''), (''.less'', ''less''), (''.vue'', ''vue''),
      (''.svelte'', ''svelte''),
      (''.json'', ''json''), (''.xml'', ''xml''), (''.yaml'', ''yaml''),
      (''.yml'', ''yaml''), (''.toml'', ''toml''), (''.csv'', ''csv''),
      (''.md'', ''markdown''), (''.txt'', ''text''), (''.rst'', ''text''),
      (''.tex'', ''latex''),
      (''.env'', ''settings''), (''.ini'', ''settings''), (''.conf'', ''settings''),
      (''.config'', ''settings''),
      (''.dockerfile'', ''docker''), (''dockerfile'', ''docker''),
      (''.jenkinsfile'', ''jenkins''), (''makefile'', ''make''),
      (''package.json'', ''npm''), (''cargo.toml'', ''rust''), (''pom.xml'', ''java''),
      (''build.gradle'', ''gradle''),
      (''.png'', ''image''), (''.jpg'', ''image''), (''.jpeg'', ''image''),
      (''.gif'', ''image''), (''.svg'', ''image''), (''.ico'', ''image''),
      (''.sql'', ''database''), (''.db'', ''database''), (''.sqlite'', ''database''),
      (''.log'', ''log''), (''.lock'', ''lock'')]"

definition getFileType :: "string \<Rightarrow> string \<Rightarrow> string" where
  "getFileType ext bname =
     (case map_of FILE_TYPE_ICONS ext of
        Some t \<Rightarrow> t
      | None \<Rightarrow> (case map_of FILE_TYPE_ICONS bname of Some t \<Rightarrow> t | None \<Rightarrow> ''file''))"

definition countLines :: "string \<Rightarrow> int" where
  "countLines content = int (length (filter (\<lambda>c. c = CHR 0x0A) content)) + 1"

section \<open>The host and FileAnalyzer.analyzeFile\<close>

text \<open>
  What the extension reads from its host in one pass: the file system (\<open>stat\<close> and
  \<open>readFile\<close> may reject), the clock, the configured thresholds and include patterns,
  the result of \<open>findFiles\<close> per include pattern (with the exclude patterns applied)
  and the collation of \<open>String.prototype.localeCompare\<close>. A file is identified by its
  \<open>fsPath\<close>; \<open>uri.toString()\<close> and \<open>Uri.parse\<close> are one-to-one on it.
\<close>

datatype js_error = Error string | NonError

record FileStat =
  st_size :: int
  st_mtime :: int

record host =
  fs_stat :: "string \<Rightarrow> js_error + FileStat"
  fs_readFile :: "string \<Rightarrow> js_error + string"
  now :: int
  healthThresholds :: HealthThresholds
  includePatterns :: "string list"
  findFiles :: "string \<Rightarrow> string list"
  localeCompare :: "string \<Rightarrow> string \<Rightarrow> int"

text \<open>The body of the \<open>try\<close> block: the first rejected \<open>await\<close> leaves it.\<close>

definition analyzeFile_try :: "host \<Rightarrow> string \<Rightarrow> js_error + FileMetrics" where
  "analyzeFile_try h u =
     (case fs_stat h u of
        Inl e \<Rightarrow> Inl e
      | Inr stat \<Rightarrow>
          (case fs_readFile h u of
             Inl e \<Rightarrow> Inl e
           | Inr content \<Rightarrow>
               (let ext = toLowerCase (extname u);
                    bname = toLowerCase (basename u);
                    lns = countLines content;
                    sz = st_size stat;
                    lm = st_mtime stat;
                    c = calculateComplexity content ext;
                    t = getFileType ext bname;
                    r = assessHealth (now h) lns sz c lm (healthThresholds h)
                in Inr \<lparr> lines = lns, fsize = sz, complexity = c, lastModified = lm,
                         ftype = t, health = fst r, issues = snd r \<rparr>)))"

definition errorMessage :: "js_error \<Rightarrow> string" where
  "errorMessage e = (case e of Error msg \<Rightarrow> msg | NonError \<Rightarrow> ''Unknown error'')"

text \<open>The \<open>catch\<close> block.\<close>

definition failedMetrics :: "host \<Rightarrow> js_error \<Rightarrow> FileMetrics" where
  "failedMetrics h e =
     \<lparr> lines = 0, fsize = 0, complexity = 0, lastModified = now h,
       ftype = ''unknown'', health = Critical,
       issues = [''Failed to analyze: '' @ errorMessage e] \<rparr>"

definition analyzeFile :: "host \<Rightarrow> string \<Rightarrow> FileMetrics" where
  "analyzeFile h u =
     (case analyzeFile_try h u of Inr m \<Rightarrow> m | Inl e \<Rightarrow> failedMetrics h e)"

section \<open>Garden items (gardenProvider.ts)\<close>

datatype GroupBy = GroupNone | GroupType | GroupHealth | GroupFolder

datatype HealthFilter = FilterAll | FilterHealthy | FilterWarning | FilterCritical

record PlantItem =
  uri :: string
  metrics :: FileMetrics

text \<open>A group item carries its label (with the child count), its children and its icon.\<close>

datatype GardenItem = Plant PlantItem | Group string "PlantItem list" string

text \<open>The label a \<open>PlantItem\<close> passes to its base class.\<close>

definition plantLabel :: "PlantItem \<Rightarrow> string" where
  "plantLabel p = basename (uri p)"

fun itemLabel :: "GardenItem \<Rightarrow> string" where
  "itemLabel (Plant p) = plantLabel p"
| "itemLabel (Group l cs ic) = l"

text \<open>\<open>item instanceof PlantItem\<close>, and the children below a list of root items.\<close>

fun isPlantItem :: "GardenItem \<Rightarrow> bool" where
  "isPlantItem (Plant p) = True"
| "isPlantItem (Group l cs ic) = False"

fun asPlantItems :: "GardenItem list \<Rightarrow> PlantItem list" where
  "asPlantItems [] = []"
| "asPlantItems (Plant p # xs) = p # asPlantItems xs"
| "asPlantItems (Group l cs ic # xs) = asPlantItems xs"

fun groupChildren :: "GardenItem \<Rightarrow> PlantItem list" where
  "groupChildren (Plant p) = []"
| "groupChildren (Group l cs ic) = cs"

text \<open>The string a verdict has in the source.\<close>

fun healthName :: "health \<Rightarrow> string" where
  "healthName Healthy = ''healthy''"
| "healthName Warning = ''warning''"
| "healthName Critical = ''critical''"

section \<open>Array.prototype.sort with a comparator\<close>

text \<open>
  \<open>xs.sort((a, b) => cmp a b)\<close>: for a consistent comparator the language fixes the
  result, the stable arrangement in which no element is followed by a smaller one;
  insertion from the right computes it. For any comparator the result is a rearrangement
  of the array.
\<close>

fun insertBy :: "('a \<Rightarrow> 'a \<Rightarrow> int) \<Rightarrow> 'a \<Rightarrow> 'a list \<Rightarrow> 'a list" where
  "insertBy cmp x [] = [x]"
| "insertBy cmp x (y # ys) = (if cmp x y \<le> 0 then x # y # ys else y # insertBy cmp x ys)"

definition arraySort :: "('a \<Rightarrow> 'a \<Rightarrow> int) \<Rightarrow> 'a list \<Rightarrow> 'a list" where
  "arraySort cmp xs = foldr (insertBy cmp) xs []"

definition byLabel :: "host \<Rightarrow> ('a \<Rightarrow> string) \<Rightarrow> 'a \<Rightarrow> 'a \<Rightarrow> int" where
  "byLabel h label a b = localeCompare h (label a) (label b)"

section \<open>GardenProvider: display names and icons\<close>

definition getIconForFileType :: "string \<Rightarrow> health \<Rightarrow> string" where
  "getIconForFileType t hl =
     (let healthSuffix = (if hl = Healthy then [] else CHR ''-'' # healthName hl)
      in if t = ''folder'' then ''folder''
         else if t = ''typescript'' \<or> t = ''javascript'' \<or> t = ''react''
         then ''leaf'' @ healthSuffix
         else if t = ''python'' \<or> t = ''java'' \<or> t = ''cpp''
         then ''flower-'' @ healthName hl
         else ''leaf'' @ healthSuffix)"

definition typeNames :: "(string \<times> string) list" where
  "typeNames =
     [(''typescript'', ''TypeScript Files''), (''javascript'', ''JavaScript Files''),
      (''python'', ''Python Files''), (''java'', ''Java Files''), (''cpp'', ''C++ Files''),
      (''css'', ''CSS Files''), (''html'', ''HTML Files''), (''json'', ''JSON Files''),
      (''markdown'', ''Markdown Files''), (''image'', ''Image Files''),
      (''database'', ''Database Files'')]"

definition capitalize :: "string \<Rightarrow> string" where
  "capitalize t = (case t of [] \<Rightarrow> [] | c # cs \<Rightarrow> toUpperChar c # cs)"

definition getTypeDisplayName :: "string \<Rightarrow> string" where
  "getTypeDisplayName t =
     (case map_of typeNames t of Some n \<Rightarrow> n | None \<Rightarrow> capitalize t @ '' Files'')"

text \<open>The three emoji of the health labels, as their UTF-8 bytes.\<close>

definition seedling :: string where
  "seedling = [CHR 0xF0, CHR 0x9F, CHR 0x8C, CHR 0xB1]"

definition warningSign :: string where
  "warningSign = [CHR 0xE2, CHR 0x9A, CHR 0xA0, CHR 0xEF, CHR 0xB8, CHR 0x8F]"

definition policeLight :: string where
  "policeLight = [CHR 0xF0, CHR 0x9F, CHR 0x9A, CHR 0xA8]"

definition getHealthDisplayName :: "string \<Rightarrow> string" where
  "getHealthDisplayName k =
     (if k = ''healthy'' then seedling @ '' Healthy Files''
      else if k = ''warning'' then warningSign @ '' Files Needing Attention''
      else if k = ''critical'' then policeLight @ '' Critical Files''
      else k)"

definition getTypeIcon :: "string \<Rightarrow> string" where
  "getTypeIcon t = getIconForFileType t Healthy"

definition getHealthIcon :: "string \<Rightarrow> string" where
  "getHealthIcon k =
     (if k = ''healthy'' then ''leaf''
      else if k = ''warning'' then ''leaf-warning''
      else if k = ''critical'' then ''leaf-critical''
      else ''leaf'')"

fun getGroupLabel :: "GroupBy \<Rightarrow> string \<Rightarrow> string" where
  "getGroupLabel GroupType key = getTypeDisplayName key"
| "getGroupLabel GroupHealth key = getHealthDisplayName key"
| "getGroupLabel gb key = key"

fun getGroupIcon :: "GroupBy \<Rightarrow> string \<Rightarrow> string" where
  "getGroupIcon GroupType key = getTypeIcon key"
| "getGroupIcon GroupHealth key = getHealthIcon key"
| "getGroupIcon GroupFolder key = ''folder''"
| "getGroupIcon GroupNone key = ''file''"

section \<open>GardenProvider.groupItems\<close>

text \<open>
  The key of an item under the current grouping; \<open>None\<close> is the \<open>default: return\<close> of
  the \<open>switch\<close>, which skips the item. (The \<open>groupLabel\<close> and \<open>groupIcon\<close> assigned in
  the same \<open>switch\<close> are never read.)
\<close>

fun groupKey :: "GroupBy \<Rightarrow> PlantItem \<Rightarrow> string option" where
  "groupKey GroupType p = Some (ftype (metrics p))"
| "groupKey GroupHealth p = Some (healthName (health (metrics p)))"
| "groupKey GroupFolder p = Some (dirname (uri p))"
| "groupKey GroupNone p = None"

text \<open>
  \<open>groups\<close> is a \<open>Map\<close>, which iterates in the order its keys were first set: an
  association list with new keys at the end.
\<close>

fun pushToGroup :: "string \<Rightarrow> PlantItem \<Rightarrow> (string \<times> PlantItem list) list
    \<Rightarrow> (string \<times> PlantItem list) list" where
  "pushToGroup k p [] = [(k, [p])]"
| "pushToGroup k p ((k', ps) # gs) =
     (if k = k' then (k', ps @ [p]) # gs else (k', ps) # pushToGroup k p gs)"

definition collectStep :: "GroupBy \<Rightarrow> (string \<times> PlantItem list) list \<Rightarrow> PlantItem
    \<Rightarrow> (string \<times> PlantItem list) list" where
  "collectStep gb gs p = (case groupKey gb p of None \<Rightarrow> gs | Some k \<Rightarrow> pushToGroup k p gs)"

definition collectGroups :: "GroupBy \<Rightarrow> PlantItem list \<Rightarrow> (string \<times> PlantItem list) list" where
  "collectGroups gb items = foldl (collectStep gb) [] items"

definition makeGroupItem :: "host \<Rightarrow> GroupBy \<Rightarrow> string \<times> PlantItem list \<Rightarrow> GardenItem" where
  "makeGroupItem h gb g =
     (let children = arraySort (byLabel h plantLabel) (snd g)
      in Group (getGroupLabel gb (fst g) @ '' ('' @ show_nat (length children) @ '')'')
               children (getGroupIcon gb (fst g)))"

definition groupItems :: "host \<Rightarrow> GroupBy \<Rightarrow> PlantItem list \<Rightarrow> GardenItem list" where
  "groupItems h gb items =
     arraySort (byLabel h itemLabel) (map (makeGroupItem h gb) (collectGroups gb items))"

section \<open>GardenProvider.getRootItems\<close>

record GardenProvider =
  fileCache :: "string \<rightharpoonup> FileMetrics"
  currentGroupBy :: GroupBy
  currentHealthFilter :: HealthFilter
  debounceTimer :: "int option"
  refreshes :: "int list"

text \<open>
  \<open>debounceTimer\<close> holds the time at which the pending timer is due, and \<open>refreshes\<close>
  records the times at which a timer called \<open>refresh\<close>.
\<close>

definition allFiles :: "host \<Rightarrow> string list" where
  "allFiles h = concat (map (findFiles h) (includePatterns h))"

text \<open>A \<open>Set\<close> keeps the first occurrence of every element, in order.\<close>

definition uniqueFiles :: "host \<Rightarrow> string list" where
  "uniqueFiles h = rev (remdups (rev (allFiles h)))"

fun passesFilter :: "HealthFilter \<Rightarrow> health \<Rightarrow> bool" where
  "passesFilter FilterAll hl = True"
| "passesFilter FilterHealthy hl = (hl = Healthy)"
| "passesFilter FilterWarning hl = (hl = Warning)"
| "passesFilter FilterCritical hl = (hl = Critical)"

text \<open>The loop over \<open>uniqueFiles\<close>: the plant items collected and the cache afterwards.\<close>

fun analyzeAll :: "host \<Rightarrow> HealthFilter \<Rightarrow> string list \<Rightarrow> (string \<rightharpoonup> FileMetrics)
    \<Rightarrow> PlantItem list \<times> (string \<rightharpoonup> FileMetrics)" where
  "analyzeAll h f [] cache = ([], cache)"
| "analyzeAll h f (file # files) cache =
     (let m = (case cache file of Some m \<Rightarrow> m | None \<Rightarrow> analyzeFile h file);
          cache' = (case cache file of Some m \<Rightarrow> cache | None \<Rightarrow> cache(file \<mapsto> m));
          rest = analyzeAll h f files cache'
      in if passesFilter f (health m)
         then (\<lparr> uri = file, metrics = m \<rparr> # fst rest, snd rest)
         else rest)"

definition getRootItems :: "host \<Rightarrow> GardenProvider \<Rightarrow> GardenItem list \<times> GardenProvider" where
  "getRootItems h s =
     (let r = analyzeAll h (currentHealthFilter s) (uniqueFiles h) (fileCache s);
          plantItems = fst r;
          s' = s\<lparr> fileCache := snd r \<rparr>
      in if currentGroupBy s = GroupNone
         then (map Plant (arraySort (byLabel h plantLabel) plantItems), s')
         else (groupItems h (currentGroupBy s) plantItems, s'))"

section \<open>GardenProvider.generateReport and exportReport\<close>

text \<open>
  The report is a text assembled from the values below; the percentages and the mean
  complexity are floating-point renderings of the counts and of \<open>complexitySum\<close>, and the
  text itself is not modelled. The two lists hold the bullet lines of the critical and
  of the warning section.
\<close>

record report =
  total :: nat
  healthyCount :: nat
  warningCount :: nat
  criticalCount :: nat
  totalSize :: int
  totalLines :: int
  complexitySum :: int
  criticalFiles :: "string list"
  warningFiles :: "string list"

fun joinWith :: "string \<Rightarrow> string list \<Rightarrow> string" where
  "joinWith sep [] = []"
| "joinWith sep [x] = x"
| "joinWith sep (x # y # ys) = x @ sep @ joinWith sep (y # ys)"

definition bulletLine :: "PlantItem \<Rightarrow> string" where
  "bulletLine p =
     ''- **'' @ plantLabel p @ ''**: '' @ joinWith '', '' (issues (metrics p)) @ [CHR 0x0A]"

definition withHealth :: "health \<Rightarrow> PlantItem list \<Rightarrow> PlantItem list" where
  "withHealth hl ps = filter (\<lambda>p. health (metrics p) = hl) ps"

definition summarize :: "PlantItem list \<Rightarrow> report" where
  "summarize plantItems =
     \<lparr> total = length plantItems,
       healthyCount = length (withHealth Healthy plantItems),
       warningCount = length (withHealth Warning plantItems),
       criticalCount = length (withHealth Critical plantItems),
       totalSize = foldl (\<lambda>sum p. sum + fsize (metrics p)) 0 plantItems,
       totalLines = foldl (\<lambda>sum p. sum + lines (metrics p)) 0 plantItems,
       complexitySum = foldl (\<lambda>sum p. sum + complexity (metrics p)) 0 plantItems,
       criticalFiles = map bulletLine (withHealth Critical plantItems),
       warningFiles = map bulletLine (withHealth Warning plantItems) \<rparr>"

definition generateReport :: "GardenItem list \<Rightarrow> report" where
  "generateReport items = summarize (asPlantItems items)"

definition exportReport :: "host \<Rightarrow> GardenProvider \<Rightarrow> report \<times> GardenProvider" where
  "exportReport h s = (let r = getRootItems h s in (generateReport (fst r), snd r))"

section \<open>GardenProvider.debouncedRefresh\<close>

text \<open>
  Time is in milliseconds. \<open>setTimeout\<close> of Node replaces a delay below 1 or above
  \<open>2^31 - 1\<close> by 1. A timer is taken to fire at the time it is due, before any
  notification that arrives at or after that time.
\<close>

definition timerDelay :: "int \<Rightarrow> int" where
  "timerDelay d = (if d < 1 \<or> d > 2147483647 then 1 else d)"

definition refresh :: "int \<Rightarrow> GardenProvider \<Rightarrow> GardenProvider" where
  "refresh t s = s\<lparr> fileCache := Map.empty, refreshes := refreshes s @ [t] \<rparr>"

definition runTimers :: "int \<Rightarrow> GardenProvider \<Rightarrow> GardenProvider" where
  "runTimers t s =
     (case debounceTimer s of
        None \<Rightarrow> s
      | Some due \<Rightarrow> if due \<le> t then refresh due (s\<lparr> debounceTimer := None \<rparr>) else s)"

definition debouncedRefresh :: "int \<Rightarrow> int \<Rightarrow> GardenProvider \<Rightarrow> GardenProvider" where
  "debouncedRefresh d t s = s\<lparr> debounceTimer := Some (t + timerDelay d) \<rparr>"

definition notify :: "int \<Rightarrow> GardenProvider \<Rightarrow> int \<Rightarrow> GardenProvider" where
  "notify d s t = debouncedRefresh d t (runTimers t s)"

definition notifyAll :: "int \<Rightarrow> int list \<Rightarrow> GardenProvider \<Rightarrow> GardenProvider" where
  "notifyAll d ts s = foldl (notify d) s ts"

text \<open>Letting the time pass after the last notification: a pending timer fires.\<close>

definition settle :: "GardenProvider \<Rightarrow> GardenProvider" where
  "settle s =
     (case debounceTimer s of
        None \<Rightarrow> s
      | Some due \<Rightarrow> refresh due (s\<lparr> debounceTimer := None \<rparr>))"

text \<open>A burst: times in order, each less than the quiet window after the one before.\<close>

fun burst :: "int \<Rightarrow> int list \<Rightarrow> bool" where
  "burst w [] = True"
| "burst w [t] = True"
| "burst w (t # u # ts) = (t \<le> u \<and> u < t + w \<and> burst w (u # ts))"

definition newProvider :: GardenProvider where
  "newProvider =
     \<lparr> fileCache = Map.empty, currentGroupBy = GroupNone, currentHealthFilter = FilterAll,
       debounceTimer = None, refreshes = [] \<rparr>"

text \<open>
  A collation for labels of ASCII letters and digits, as \<open>localeCompare\<close> orders them:
  first by the letters with case ignored (digits before letters, a shorter label before
  its extensions), then, for labels that differ in case only, lower case before upper
  case at the first difference.
\<close>

fun compareCodes :: "string \<Rightarrow> string \<Rightarrow> int" where
  "compareCodes [] [] = 0"
| "compareCodes [] (b # bs) = -1"
| "compareCodes (a # as) [] = 1"
| "compareCodes (a # as) (b # bs) =
     (if (of_char a :: nat) < of_char b then -1
      else if (of_char b :: nat) < of_char a then 1
      else compareCodes as bs)"

definition collate :: "string \<Rightarrow> string \<Rightarrow> int" where
  "collate a b =
     (let primary = compareCodes (toLowerCase a) (toLowerCase b)
      in if primary \<noteq> 0 then primary else compareCodes b a)"

text \<open>The plant items a list of root items shows: the leaves and the children of groups.\<close>

fun shownPlants :: "GardenItem list \<Rightarrow> PlantItem list" where
  "shownPlants [] = []"
| "shownPlants (Plant p # xs) = p # shownPlants xs"
| "shownPlants (Group l cs ic # xs) = cs @ shownPlants xs"

text \<open>Every enumerated file with its metrics, in the order of enumeration.\<close>

definition analyzedFiles :: "host \<Rightarrow> GardenProvider \<Rightarrow> PlantItem list" where
  "analyzedFiles h s = fst (analyzeAll h FilterAll (uniqueFiles h) (fileCache s))"

text \<open>The enumerated files that pass the current health filter.\<close>

definition shownFiles :: "host \<Rightarrow> GardenProvider \<Rightarrow> PlantItem list" where
  "shownFiles h s =
     filter (\<lambda>p. passesFilter (currentHealthFilter s) (health (metrics p))) (analyzedFiles h s)"

text \<open>The metrics the loop uses for a file: the cached ones, or a fresh analysis.\<close>

definition cachedOrAnalyzed :: "host \<Rightarrow> (string \<rightharpoonup> FileMetrics) \<Rightarrow> string \<Rightarrow> FileMetrics" where
  "cachedOrAnalyzed h cache u = (case cache u of Some m \<Rightarrow> m | None \<Rightarrow> analyzeFile h u)"

section \<open>A small workspace\<close>

text \<open>
  Four files, one of which disappears before it can be read; the default thresholds;
  five days after the files were last modified.
\<close>

definition exampleHost :: host where
  "exampleHost =
     \<lparr> fs_stat = (\<lambda>u. if u = ''/w/gone.txt'' then Inl (Error ''ENOENT'')
                        else Inr \<lparr> st_size = 2048, st_mtime = 0 \<rparr>),
       fs_readFile = (\<lambda>u. if u = ''/w/src/app.ts'' then Inr ''if (x) { y } else { z }''
                            else Inr ''text''),
       now = 5 * 86400000,
       healthThresholds = defaultThresholds,
       includePatterns = [''**/*''],
       findFiles = (\<lambda>pattern. [''/w/README'', ''/w/makefile'', ''/w/src/app.ts'',
                                ''/w/gone.txt'']),
       localeCompare = collate \<rparr>"

section \<open>Properties of the health classifier\<close>

lemmas assess_defs = assessHealth_def assessChecks_def checkComplexity_def checkSize_def
  checkAge_def verdict_def healthScore_def daysSinceModified_def sizeKB_def

text \<open>
  C1. The score of the classifier is the sum of three contributions: 2 for a complexity
  at or above the critical complexity threshold, else 1 at or above the warning
  threshold; the same for the size in whole kilobytes; 1 for an age in whole days at or
  above the critical age threshold, and nothing for an age between the two age
  thresholds, which only adds its issue string. The verdict is critical exactly when the
  score is at least 3, warning exactly when it is 1 or 2, healthy exactly when it is 0.
\<close>

theorem assessHealth_score_verdict:
  "healthScore tnow lns sz c lm th =
     (if c \<ge> critical (complexity_t th) then 2
      else if c \<ge> warning (complexity_t th) then 1 else 0)
   + (if sz div 1024 \<ge> critical (size_t th) then 2
      else if sz div 1024 \<ge> warning (size_t th) then 1 else 0)
   + (if (tnow - lm) div 86400000 \<ge> critical (age_t th) then 1 else 0)
   \<and> (fst (assessHealth tnow lns sz c lm th) = Critical) = (healthScore tnow lns sz c lm th \<ge> 3)
   \<and> (fst (assessHealth tnow lns sz c lm th) = Warning)
        = (1 \<le> healthScore tnow lns sz c lm th \<and> healthScore tnow lns sz c lm th \<le> 2)
   \<and> (fst (assessHealth tnow lns sz c lm th) = Healthy) = (healthScore tnow lns sz c lm th = 0)
   \<and> snd (assessHealth tnow lns sz c lm th) =
       (if c \<ge> critical (complexity_t th) then [issueHighComplexity c]
        else if c \<ge> warning (complexity_t th) then [issueModerateComplexity c]
        else [])
     @ (if sz div 1024 \<ge> critical (size_t th) then [issueLargeFile (sz div 1024)]
        else if sz div 1024 \<ge> warning (size_t th) then [issueMediumFile (sz div 1024)]
        else [])
     @ (if (tnow - lm) div 86400000 \<ge> critical (age_t th)
        then [issueNotModified ((tnow - lm) div 86400000)]
        else if (tnow - lm) div 86400000 \<ge> warning (age_t th)
        then [issueLastModified ((tnow - lm) div 86400000)]
        else [])"
  by (simp add: assess_defs Let_def)

text \<open>
  C5, as stated, fails: the thresholds are not required to be ordered, and the critical
  threshold is tested first. With a complexity warning threshold of 20 above a critical
  threshold of 10, a small file of complexity 15 that is 95 days old is critical.
\<close>

theorem stale_file_critical_counterexample:
  "(15::int) < warning (complexity_t (defaultThresholds\<lparr> complexity_t := \<lparr> warning = 20, critical = 10 \<rparr> \<rparr>))
   \<and> (0::int) div 1024 < warning (size_t (defaultThresholds\<lparr> complexity_t := \<lparr> warning = 20, critical = 10 \<rparr> \<rparr>))
   \<and> fst (assessHealth (95 * 86400000) 1 0 15 0
            (defaultThresholds\<lparr> complexity_t := \<lparr> warning = 20, critical = 10 \<rparr> \<rparr>)) = Critical"
  by (simp add: assess_defs Let_def defaultThresholds_def)

text \<open>
  C5, amended. If the complexity is below both complexity thresholds and the size in
  whole kilobytes is below both size thresholds, the verdict is not critical, whatever
  the age and the age thresholds. (Where the warning threshold does not exceed the
  critical one, being below the warning threshold is enough.)
\<close>

theorem staleness_alone_not_critical:
  "c < warning (complexity_t th) \<Longrightarrow> c < critical (complexity_t th) \<Longrightarrow>
   sz div 1024 < warning (size_t th) \<Longrightarrow> sz div 1024 < critical (size_t th) \<Longrightarrow>
   fst (assessHealth tnow lns sz c lm th) \<noteq> Critical
   \<and> healthScore tnow lns sz c lm th \<le> 1"
  by (simp add: assess_defs Let_def)

theorem staleness_alone_not_critical_witness:
  "(1::int) < warning (complexity_t defaultThresholds)
   \<and> (1::int) < critical (complexity_t defaultThresholds)
   \<and> (2048::int) div 1024 < warning (size_t defaultThresholds)
   \<and> (2048::int) div 1024 < critical (size_t defaultThresholds)
   \<and> fst (assessHealth (400 * 86400000) 1 2048 1 0 defaultThresholds) = Warning
   \<and> fst (assessHealth (400 * 86400000) 1 2048 1 0 defaultThresholds) \<noteq> Critical
   \<and> healthScore (400 * 86400000) 1 2048 1 0 defaultThresholds \<le> 1"
proof -
  have h: "(1::int) < warning (complexity_t defaultThresholds)"
    "(1::int) < critical (complexity_t defaultThresholds)"
    "(2048::int) div 1024 < warning (size_t defaultThresholds)"
    "(2048::int) div 1024 < critical (size_t defaultThresholds)"
    by (simp_all add: defaultThresholds_def)
  have w: "fst (assessHealth (400 * 86400000) 1 2048 1 0 defaultThresholds) = Warning"
    by (simp add: assess_defs Let_def defaultThresholds_def)
  from h w staleness_alone_not_critical [OF h, of "400 * 86400000" 1 0]
  show ?thesis by simp
qed

text \<open>
  C6. With size, modification time and thresholds fixed, a larger complexity never
  gives a smaller score, and never a better verdict.
\<close>

theorem healthScore_mono_complexity:
  "c1 \<le> c2 \<Longrightarrow>
   healthScore tnow lns sz c1 lm th \<le> healthScore tnow lns sz c2 lm th
   \<and> severity (fst (assessHealth tnow lns sz c1 lm th))
       \<le> severity (fst (assessHealth tnow lns sz c2 lm th))"
  by (simp add: assess_defs Let_def)

theorem healthScore_mono_complexity_witness:
  "(5::int) \<le> 25
   \<and> healthScore 0 1 0 5 0 defaultThresholds \<le> healthScore 0 1 0 25 0 defaultThresholds
   \<and> healthScore 0 1 0 5 0 defaultThresholds = 0
   \<and> healthScore 0 1 0 25 0 defaultThresholds = 2
   \<and> severity (fst (assessHealth 0 1 0 5 0 defaultThresholds))
       \<le> severity (fst (assessHealth 0 1 0 25 0 defaultThresholds))"
proof -
  have h: "(5::int) \<le> 25" by simp
  have v: "healthScore 0 1 0 5 0 defaultThresholds = 0"
    "healthScore 0 1 0 25 0 defaultThresholds = 2"
    by (simp_all add: assess_defs defaultThresholds_def)
  from h v healthScore_mono_complexity [OF h, of 0 1 0 0 defaultThresholds]
  show ?thesis by simp
qed

text \<open>
  C10. A critical verdict comes with at least two issues, and the classifier never
  reports more than three issues.
\<close>

theorem critical_has_two_issues:
  "(fst (assessHealth tnow lns sz c lm th) = Critical
      \<longrightarrow> 2 \<le> length (snd (assessHealth tnow lns sz c lm th)))
   \<and> length (snd (assessHealth tnow lns sz c lm th)) \<le> 3"
  by (simp add: assess_defs Let_def)

theorem critical_has_two_issues_witness:
  "fst (assessHealth 0 1 2048000 25 0 defaultThresholds) = Critical
   \<and> 2 \<le> length (snd (assessHealth 0 1 2048000 25 0 defaultThresholds))
   \<and> length (snd (assessHealth 0 1 2048000 25 0 defaultThresholds)) \<le> 3"
proof -
  have h: "fst (assessHealth 0 1 2048000 25 0 defaultThresholds) = Critical"
    by (simp add: assess_defs Let_def defaultThresholds_def)
  from h critical_has_two_issues [of 0 1 2048000 25 0 defaultThresholds]
  show ?thesis by simp
qed

section \<open>Sorting and grouping\<close>

lemma mset_insertBy: "mset (insertBy cmp x xs) = add_mset x (mset xs)"
  by (induction xs) auto

lemma mset_arraySort: "mset (arraySort cmp xs) = mset xs"
  unfolding arraySort_def by (induction xs) (auto simp: mset_insertBy)

lemma set_arraySort: "set (arraySort cmp xs) = set xs"
  using mset_arraySort [of cmp xs] by (metis set_mset_mset)

lemma length_arraySort: "length (arraySort cmp xs) = length xs"
  using mset_arraySort [of cmp xs] by (metis size_mset)

lemma successively_insertBy:
  assumes tot: "\<And>a b. cmp a b \<le> 0 \<or> cmp b a \<le> 0"
  shows "successively (\<lambda>a b. cmp a b \<le> 0) xs \<Longrightarrow> successively (\<lambda>a b. cmp a b \<le> 0) (insertBy cmp x xs)"
proof (induction xs)
  case Nil
  then show ?case by simp
next
  case (Cons y ys)
  show ?case
  proof (cases "cmp x y \<le> 0")
    case True
    with Cons.prems show ?thesis by simp
  next
    case False
    then have yx: "cmp y x \<le> 0" using tot [of x y] by simp
    from Cons.prems have "successively (\<lambda>a b. cmp a b \<le> 0) ys"
      by (auto simp: successively_Cons)
    then have ih: "successively (\<lambda>a b. cmp a b \<le> 0) (insertBy cmp x ys)"
      by (rule Cons.IH)
    have "cmp y (hd (insertBy cmp x ys)) \<le> 0"
    proof (cases ys)
      case Nil
      then show ?thesis using yx by simp
    next
      case (Cons z zs)
      with Cons.prems have "cmp y z \<le> 0" by simp
      with Cons yx show ?thesis by simp
    qed
    with ih False show ?thesis by (simp add: successively_Cons)
  qed
qed

lemma successively_arraySort:
  assumes tot: "\<And>a b. cmp a b \<le> 0 \<or> cmp b a \<le> 0"
  shows "successively (\<lambda>a b. cmp a b \<le> 0) (arraySort cmp xs)"
  unfolding arraySort_def
  by (induction xs) (simp_all add: successively_insertBy [OF tot])

lemma successively_map_iff:
  "successively P (map f xs) = successively (\<lambda>a b. P (f a) (f b)) xs"
  by (induction xs rule: induct_list012) auto

lemma mset_pushToGroup:
  "mset (concat (map snd (pushToGroup k p gs))) = add_mset p (mset (concat (map snd gs)))"
  by (induction gs) auto

lemma mset_collect_foldl:
  "gb \<noteq> GroupNone \<Longrightarrow>
   mset (concat (map snd (foldl (collectStep gb) gs items))) = mset (concat (map snd gs)) + mset items"
proof (induction items arbitrary: gs)
  case Nil
  then show ?case by simp
next
  case (Cons p ps)
  from Cons.prems obtain k where k: "groupKey gb p = Some k"
    by (cases gb) auto
  show ?case
    using Cons.IH [OF Cons.prems, of "collectStep gb gs p"]
    by (simp add: collectStep_def k mset_pushToGroup)
qed

lemma mset_collectGroups:
  "gb \<noteq> GroupNone \<Longrightarrow> mset (concat (map snd (collectGroups gb items))) = mset items"
  unfolding collectGroups_def using mset_collect_foldl [of gb "[]" items] by simp

lemma mset_concat_perm:
  "mset xs = mset ys \<Longrightarrow> mset (concat (map f xs)) = mset (concat (map f ys))"
proof -
  assume a: "mset xs = mset ys"
  have "\<And>zs. mset (concat (map f zs)) = (\<Sum>z \<in># mset zs. mset (f z))"
    by (induct_tac zs) auto
  with a show ?thesis by simp
qed

lemma groupChildren_makeGroupItem:
  "mset (groupChildren (makeGroupItem h gb g)) = mset (snd g)"
  by (simp add: makeGroupItem_def Let_def mset_arraySort)

lemma mset_children_map_makeGroupItem:
  "mset (concat (map groupChildren (map (makeGroupItem h gb) gs))) = mset (concat (map snd gs))"
  by (induction gs) (auto simp: groupChildren_makeGroupItem)

lemma mset_groupItems:
  "gb \<noteq> GroupNone \<Longrightarrow> mset (concat (map groupChildren (groupItems h gb items))) = mset items"
proof -
  assume gb: "gb \<noteq> GroupNone"
  have "mset (concat (map groupChildren (groupItems h gb items)))
        = mset (concat (map groupChildren (map (makeGroupItem h gb) (collectGroups gb items))))"
    unfolding groupItems_def by (rule mset_concat_perm) (rule mset_arraySort)
  also have "\<dots> = mset (concat (map snd (collectGroups gb items)))"
    by (rule mset_children_map_makeGroupItem)
  also have "\<dots> = mset items" by (rule mset_collectGroups [OF gb])
  finally show ?thesis .
qed

lemma isGroup_groupItems: "list_all (\<lambda>i. \<not> isPlantItem i) (groupItems h gb items)"
proof -
  have "\<forall>i \<in> set (map (makeGroupItem h gb) (collectGroups gb items)). \<not> isPlantItem i"
    by (auto simp: makeGroupItem_def Let_def)
  then show ?thesis
    unfolding groupItems_def list_all_iff set_arraySort .
qed

lemma shownPlants_groups:
  "list_all (\<lambda>i. \<not> isPlantItem i) xs \<Longrightarrow> shownPlants xs = concat (map groupChildren xs)"
  by (induction xs rule: shownPlants.induct) auto

lemma asPlantItems_groups:
  "list_all (\<lambda>i. \<not> isPlantItem i) xs \<Longrightarrow> asPlantItems xs = []"
  by (induction xs rule: asPlantItems.induct) auto

lemma shownPlants_map_Plant: "shownPlants (map Plant ps) = ps"
  by (induction ps) auto

lemma asPlantItems_map_Plant: "asPlantItems (map Plant ps) = ps"
  by (induction ps) auto

text \<open>
  C7. For the groupings by type, by health and by folder, the children of the groups
  are the grouped items, each exactly once: as multisets the children of all groups
  together are the input, items that are distinct stay distinct across the groups, and
  every root item is a group.
\<close>

theorem groupItems_partition:
  "gb \<noteq> GroupNone \<Longrightarrow>
     mset (concat (map groupChildren (groupItems h gb items))) = mset items
   \<and> (distinct items \<longrightarrow> distinct (concat (map groupChildren (groupItems h gb items))))
   \<and> list_all (\<lambda>i. \<not> isPlantItem i) (groupItems h gb items)"
  using mset_groupItems [of gb h items] isGroup_groupItems [of h gb items]
  by (metis mset_eq_imp_distinct_iff)

theorem groupItems_partition_witness:
  "GroupFolder \<noteq> GroupNone
   \<and> mset (concat (map groupChildren (groupItems exampleHost GroupFolder
         (analyzedFiles exampleHost newProvider))))
       = mset (analyzedFiles exampleHost newProvider)
   \<and> distinct (analyzedFiles exampleHost newProvider)
   \<and> distinct (concat (map groupChildren (groupItems exampleHost GroupFolder
         (analyzedFiles exampleHost newProvider))))
   \<and> length (groupItems exampleHost GroupFolder (analyzedFiles exampleHost newProvider)) = 2"
proof -
  have h: "GroupFolder \<noteq> GroupNone" by simp
  have d: "distinct (analyzedFiles exampleHost newProvider)" by code_simp
  have l: "length (groupItems exampleHost GroupFolder (analyzedFiles exampleHost newProvider)) = 2"
    by code_simp
  from h d l groupItems_partition [OF h, of exampleHost "analyzedFiles exampleHost newProvider"]
  show ?thesis by simp
qed

section \<open>Properties of the analysis and of a scan\<close>

lemma cachedOrAnalyzed_update:
  "cache v = None \<Longrightarrow>
   cachedOrAnalyzed h (cache(v \<mapsto> analyzeFile h v)) = cachedOrAnalyzed h cache"
  by (rule ext) (simp add: cachedOrAnalyzed_def)

lemma fst_analyzeAll:
  "fst (analyzeAll h f files cache) =
     filter (\<lambda>p. passesFilter f (health (metrics p)))
       (map (\<lambda>u. \<lparr> uri = u, metrics = cachedOrAnalyzed h cache u \<rparr>) files)"
proof (induction files arbitrary: cache)
  case Nil
  then show ?case by simp
next
  case (Cons v vs)
  show ?case
  proof (cases "cache v")
    case None
    have ih: "fst (analyzeAll h f vs (cache(v \<mapsto> analyzeFile h v))) =
      filter (\<lambda>p. passesFilter f (health (metrics p)))
        (map (\<lambda>u. \<lparr> uri = u, metrics = cachedOrAnalyzed h cache u \<rparr>) vs)"
      using Cons.IH [of "cache(v \<mapsto> analyzeFile h v)"]
      by (simp only: cachedOrAnalyzed_update [of cache v h, OF None])
    have m: "cachedOrAnalyzed h cache v = analyzeFile h v"
      using None by (simp add: cachedOrAnalyzed_def)
    show ?thesis by (simp add: Let_def None ih m)
  next
    case (Some m)
    have m: "cachedOrAnalyzed h cache v = m"
      using Some by (simp add: cachedOrAnalyzed_def)
    show ?thesis by (simp add: Let_def Some Cons.IH m)
  qed
qed

lemma snd_analyzeAll:
  "snd (analyzeAll h f files cache) u =
     (if u \<in> set files then Some (cachedOrAnalyzed h cache u) else cache u)"
proof (induction files arbitrary: cache u)
  case Nil
  then show ?case by simp
next
  case (Cons v vs)
  show ?case
  proof (cases "cache v")
    case None
    have ih: "\<And>w. snd (analyzeAll h f vs (cache(v \<mapsto> analyzeFile h v))) w =
      (if w \<in> set vs then Some (cachedOrAnalyzed h cache w)
       else (cache(v \<mapsto> analyzeFile h v)) w)"
      using Cons.IH [of "cache(v \<mapsto> analyzeFile h v)"]
      by (simp only: cachedOrAnalyzed_update [of cache v h, OF None])
    have m: "cachedOrAnalyzed h cache v = analyzeFile h v"
      using None by (simp add: cachedOrAnalyzed_def)
    show ?thesis using m by (auto simp add: Let_def None ih)
  next
    case (Some m)
    have m: "cachedOrAnalyzed h cache v = m"
      using Some by (simp add: cachedOrAnalyzed_def)
    show ?thesis using m Some by (auto simp add: Let_def Cons.IH)
  qed
qed

lemma analyzedFiles_eq:
  "analyzedFiles h s =
     map (\<lambda>u. \<lparr> uri = u, metrics = cachedOrAnalyzed h (fileCache s) u \<rparr>) (uniqueFiles h)"
  by (simp add: analyzedFiles_def fst_analyzeAll)

lemma fst_analyzeAll_filter:
  "fst (analyzeAll h f (uniqueFiles h) (fileCache s)) =
     filter (\<lambda>p. passesFilter f (health (metrics p))) (analyzedFiles h s)"
  by (simp add: analyzedFiles_eq fst_analyzeAll)

lemma mset_shownPlants_getRootItems:
  "mset (shownPlants (fst (getRootItems h s))) =
     mset (fst (analyzeAll h (currentHealthFilter s) (uniqueFiles h) (fileCache s)))"
proof (cases "currentGroupBy s = GroupNone")
  case True
  then show ?thesis
    by (simp add: getRootItems_def Let_def shownPlants_map_Plant mset_arraySort)
next
  case False
  then show ?thesis
    by (simp add: getRootItems_def Let_def shownPlants_groups [OF isGroup_groupItems]
        mset_groupItems)
qed

lemma fileCache_getRootItems:
  "fileCache (snd (getRootItems h s)) u =
     (if u \<in> set (uniqueFiles h) then Some (cachedOrAnalyzed h (fileCache s) u)
      else fileCache s u)"
  by (simp add: getRootItems_def Let_def snd_analyzeAll)

lemma analyzeFile_try_ok:
  "fs_stat h u = Inr st \<Longrightarrow> fs_readFile h u = Inr content \<Longrightarrow>
   analyzeFile_try h u =
     Inr \<lparr> lines = countLines content, fsize = st_size st,
           complexity = calculateComplexity content (toLowerCase (extname u)),
           lastModified = st_mtime st,
           ftype = getFileType (toLowerCase (extname u)) (toLowerCase (basename u)),
           health = fst (assessHealth (now h) (countLines content) (st_size st)
                      (calculateComplexity content (toLowerCase (extname u))) (st_mtime st)
                      (healthThresholds h)),
           issues = snd (assessHealth (now h) (countLines content) (st_size st)
                      (calculateComplexity content (toLowerCase (extname u))) (st_mtime st)
                      (healthThresholds h)) \<rparr>"
  by (simp add: analyzeFile_try_def Let_def)

lemma analyzeFile_try_fail:
  "fs_stat h u = Inl e \<or> (fs_stat h u = Inr st \<and> fs_readFile h u = Inl e) \<Longrightarrow>
   analyzeFile_try h u = Inl e"
  by (auto simp add: analyzeFile_try_def)

text \<open>
  C3, as stated, fails: the record returned for a file that cannot be read has
  complexity 0.
\<close>

theorem sentinel_complexity_zero_counterexample:
  "fs_stat exampleHost ''/w/gone.txt'' = Inl (Error ''ENOENT'')
   \<and> \<not> 1 \<le> complexity (analyzeFile exampleHost ''/w/gone.txt'')"
  by code_simp

text \<open>
  C3, amended. The metrics of a file that was read and stat'd have the complexity
  \<open>max 1 (matches div 10)\<close>, which is at least 1; the record returned when reading
  or stat'ing fails has complexity 0.
\<close>

theorem analyzed_complexity_positive:
  "(fs_stat h u = Inr st \<and> fs_readFile h u = Inr content \<longrightarrow>
      complexity (analyzeFile h u) = max 1 (int (matchTotal content (toLowerCase (extname u))) div 10)
      \<and> 1 \<le> complexity (analyzeFile h u))
   \<and> (analyzeFile_try h v = Inl e \<longrightarrow> complexity (analyzeFile h v) = 0)"
  by (auto simp add: analyzeFile_def analyzeFile_try_ok calculateComplexity_def failedMetrics_def)

theorem analyzed_complexity_positive_witness:
  "fs_stat exampleHost ''/w/src/app.ts'' = Inr \<lparr> st_size = 2048, st_mtime = 0 \<rparr>
   \<and> fs_readFile exampleHost ''/w/src/app.ts'' = Inr ''if (x) { y } else { z }''
   \<and> 1 \<le> complexity (analyzeFile exampleHost ''/w/src/app.ts'')
   \<and> analyzeFile_try exampleHost ''/w/gone.txt'' = Inl (Error ''ENOENT'')
   \<and> complexity (analyzeFile exampleHost ''/w/gone.txt'') = 0"
proof -
  have h1: "fs_stat exampleHost ''/w/src/app.ts'' = Inr \<lparr> st_size = 2048, st_mtime = 0 \<rparr>"
    by (simp add: exampleHost_def)
  have h2: "fs_readFile exampleHost ''/w/src/app.ts'' = Inr ''if (x) { y } else { z }''"
    by (simp add: exampleHost_def)
  have h3: "analyzeFile_try exampleHost ''/w/gone.txt'' = Inl (Error ''ENOENT'')"
    by (simp add: exampleHost_def analyzeFile_try_def)
  from h1 h2 h3
    analyzed_complexity_positive [of exampleHost "''/w/src/app.ts''" "\<lparr> st_size = 2048, st_mtime = 0 \<rparr>"
      "''if (x) { y } else { z }''" "''/w/gone.txt''" "Error ''ENOENT''"]
  show ?thesis by simp
qed

text \<open>
  C4. When \<open>stat\<close> or \<open>readFile\<close> rejects, \<open>analyzeFile\<close> returns the record with
  0 lines, size 0, complexity 0, type \<open>unknown\<close>, health critical and the one issue
  \<open>Failed to analyze: <message>\<close>. In a scan, whatever happens to the other files, a
  readable file that is enumerated and not cached gets the metrics computed from its own
  content and metadata: they are stored in the cache, and the file is shown if it passes
  the health filter.
\<close>

theorem analyzeFile_failure_contained:
  "(fs_stat h bad = Inl e \<or> (fs_stat h bad = Inr st \<and> fs_readFile h bad = Inl e) \<longrightarrow>
      analyzeFile h bad =
        \<lparr> lines = 0, fsize = 0, complexity = 0, lastModified = now h, ftype = ''unknown'',
          health = Critical, issues = [''Failed to analyze: '' @ errorMessage e] \<rparr>)
   \<and> (good \<in> set (uniqueFiles h) \<and> fileCache s good = None
        \<and> fs_stat h good = Inr st' \<and> fs_readFile h good = Inr content \<longrightarrow>
        analyzeFile_try h good = Inr (analyzeFile h good)
        \<and> fsize (analyzeFile h good) = st_size st'
        \<and> lines (analyzeFile h good) = countLines content
        \<and> 1 \<le> complexity (analyzeFile h good)
        \<and> fileCache (snd (getRootItems h s)) good = Some (analyzeFile h good)
        \<and> (passesFilter (currentHealthFilter s) (health (analyzeFile h good)) \<longrightarrow>
             \<lparr> uri = good, metrics = analyzeFile h good \<rparr>
               \<in> set (shownPlants (fst (getRootItems h s)))))"
proof (intro conjI impI)
  assume "fs_stat h bad = Inl e \<or> (fs_stat h bad = Inr st \<and> fs_readFile h bad = Inl e)"
  then have "analyzeFile_try h bad = Inl e" by (rule analyzeFile_try_fail)
  then show "analyzeFile h bad =
        \<lparr> lines = 0, fsize = 0, complexity = 0, lastModified = now h, ftype = ''unknown'',
          health = Critical, issues = [''Failed to analyze: '' @ errorMessage e] \<rparr>"
    by (simp add: analyzeFile_def failedMetrics_def)
next
  assume a: "good \<in> set (uniqueFiles h) \<and> fileCache s good = None
        \<and> fs_stat h good = Inr st' \<and> fs_readFile h good = Inr content"
  then have ok: "analyzeFile_try h good = Inr (analyzeFile h good)"
    by (simp add: analyzeFile_def analyzeFile_try_ok)
  show "analyzeFile_try h good = Inr (analyzeFile h good)" by (rule ok)
  show "fsize (analyzeFile h good) = st_size st'"
    using a by (simp add: analyzeFile_def analyzeFile_try_ok)
  show "lines (analyzeFile h good) = countLines content"
    using a by (simp add: analyzeFile_def analyzeFile_try_ok)
  show "1 \<le> complexity (analyzeFile h good)"
    using a by (simp add: analyzeFile_def analyzeFile_try_ok calculateComplexity_def)
  have c: "cachedOrAnalyzed h (fileCache s) good = analyzeFile h good"
    using a by (simp add: cachedOrAnalyzed_def)
  show "fileCache (snd (getRootItems h s)) good = Some (analyzeFile h good)"
    using a c by (simp add: fileCache_getRootItems)
  assume p: "passesFilter (currentHealthFilter s) (health (analyzeFile h good))"
  have "\<lparr> uri = good, metrics = analyzeFile h good \<rparr>
      \<in> set (fst (analyzeAll h (currentHealthFilter s) (uniqueFiles h) (fileCache s)))"
    using a c p by (auto simp add: fst_analyzeAll)
  then have "\<lparr> uri = good, metrics = analyzeFile h good \<rparr>
      \<in># mset (shownPlants (fst (getRootItems h s)))"
    by (simp add: mset_shownPlants_getRootItems)
  then show "\<lparr> uri = good, metrics = analyzeFile h good \<rparr>
               \<in> set (shownPlants (fst (getRootItems h s)))"
    by simp
qed

theorem analyzeFile_failure_contained_witness:
  "fs_stat exampleHost ''/w/gone.txt'' = Inl (Error ''ENOENT'')
   \<and> analyzeFile exampleHost ''/w/gone.txt'' =
        \<lparr> lines = 0, fsize = 0, complexity = 0, lastModified = now exampleHost,
          ftype = ''unknown'', health = Critical,
          issues = [''Failed to analyze: ENOENT''] \<rparr>
   \<and> ''/w/src/app.ts'' \<in> set (uniqueFiles exampleHost)
   \<and> fileCache newProvider ''/w/src/app.ts'' = None
   \<and> fs_stat exampleHost ''/w/src/app.ts'' = Inr \<lparr> st_size = 2048, st_mtime = 0 \<rparr>
   \<and> fs_readFile exampleHost ''/w/src/app.ts'' = Inr ''if (x) { y } else { z }''
   \<and> passesFilter (currentHealthFilter newProvider) (health (analyzeFile exampleHost ''/w/src/app.ts''))
   \<and> fsize (analyzeFile exampleHost ''/w/src/app.ts'') = 2048
   \<and> 1 \<le> complexity (analyzeFile exampleHost ''/w/src/app.ts'')
   \<and> fileCache (snd (getRootItems exampleHost newProvider)) ''/w/src/app.ts''
        = Some (analyzeFile exampleHost ''/w/src/app.ts'')
   \<and> \<lparr> uri = ''/w/src/app.ts'', metrics = analyzeFile exampleHost ''/w/src/app.ts'' \<rparr>
        \<in> set (shownPlants (fst (getRootItems exampleHost newProvider)))"
proof -
  have b: "fs_stat exampleHost ''/w/gone.txt'' = Inl (Error ''ENOENT'')"
    by (simp add: exampleHost_def)
  have g1: "''/w/src/app.ts'' \<in> set (uniqueFiles exampleHost)"
    by (simp add: uniqueFiles_def allFiles_def exampleHost_def)
  have g2: "fileCache newProvider ''/w/src/app.ts'' = None"
    by (simp add: newProvider_def)
  have g3: "fs_stat exampleHost ''/w/src/app.ts'' = Inr \<lparr> st_size = 2048, st_mtime = 0 \<rparr>"
    by (simp add: exampleHost_def)
  have g4: "fs_readFile exampleHost ''/w/src/app.ts'' = Inr ''if (x) { y } else { z }''"
    by (simp add: exampleHost_def)
  have g5: "passesFilter (currentHealthFilter newProvider)
      (health (analyzeFile exampleHost ''/w/src/app.ts''))"
    by (simp add: newProvider_def)
  have m: "errorMessage (Error ''ENOENT'') = ''ENOENT''"
    by (simp add: errorMessage_def)
  from b g1 g2 g3 g4 g5 m
    analyzeFile_failure_contained [of exampleHost "''/w/gone.txt''" "Error ''ENOENT''" "\<lparr> st_size = 0, st_mtime = 0 \<rparr>" "''/w/src/app.ts''"
      newProvider "\<lparr> st_size = 2048, st_mtime = 0 \<rparr>" "''if (x) { y } else { z }''"]
  show ?thesis by simp
qed

section \<open>Properties of the flat list\<close>

lemma compareCodes_flip: "compareCodes b a = - compareCodes a b"
  by (induction a b rule: compareCodes.induct) auto

lemma collate_flip: "collate b a = - collate a b"
  by (simp add: collate_def Let_def compareCodes_flip [of "toLowerCase b" "toLowerCase a"]
      compareCodes_flip [of a b])

lemma collate_total: "collate a b \<le> 0 \<or> collate b a \<le> 0"
  using collate_flip [of b a] by linarith

text \<open>
  C8, as stated, fails: the list is ordered by \<open>localeCompare\<close>, which is not the
  order of the code units. In the small workspace \<open>makefile\<close> comes before \<open>README\<close>,
  although \<open>R\<close> (82) is below \<open>m\<close> (109).
\<close>

theorem flat_list_not_code_unit_sorted_counterexample:
  "currentGroupBy newProvider = GroupNone
   \<and> map itemLabel (fst (getRootItems exampleHost newProvider))
       = [''app.ts'', ''gone.txt'', ''makefile'', ''README'']
   \<and> compareCodes ''makefile'' ''README'' = 1"
  by code_simp

text \<open>
  C8, amended. Without grouping, the root items are plant items, and for every two
  adjacent items \<open>localeCompare\<close> of the first label with the second is at most 0,
  provided \<open>localeCompare\<close> compares any two labels one way or the other.
\<close>

theorem flat_list_sorted_by_localeCompare:
  "(\<forall>a b. localeCompare h a b \<le> 0 \<or> localeCompare h b a \<le> 0) \<Longrightarrow>
   currentGroupBy s = GroupNone \<Longrightarrow>
   successively (\<lambda>a b. localeCompare h (itemLabel a) (itemLabel b) \<le> 0) (fst (getRootItems h s))
   \<and> list_all isPlantItem (fst (getRootItems h s))"
proof -
  assume tot: "\<forall>a b. localeCompare h a b \<le> 0 \<or> localeCompare h b a \<le> 0"
    and gb: "currentGroupBy s = GroupNone"
  have t: "\<And>a b. byLabel h plantLabel a b \<le> 0 \<or> byLabel h plantLabel b a \<le> 0"
    using tot by (simp add: byLabel_def)
  have "successively (\<lambda>a b. byLabel h plantLabel a b \<le> 0) (arraySort (byLabel h plantLabel) ps)" for ps
    by (rule successively_arraySort [OF t])
  then have "successively (\<lambda>a b. localeCompare h (itemLabel a) (itemLabel b) \<le> 0)
     (map Plant (arraySort (byLabel h plantLabel) ps))" for ps
    by (simp add: successively_map_iff byLabel_def)
  moreover have "list_all isPlantItem (map Plant ps)" for ps :: "PlantItem list"
    by (induction ps) auto
  ultimately show ?thesis using gb by (simp add: getRootItems_def Let_def)
qed

theorem flat_list_sorted_by_localeCompare_witness:
  "(\<forall>a b. localeCompare exampleHost a b \<le> 0 \<or> localeCompare exampleHost b a \<le> 0)
   \<and> currentGroupBy newProvider = GroupNone
   \<and> successively (\<lambda>a b. localeCompare exampleHost (itemLabel a) (itemLabel b) \<le> 0)
        (fst (getRootItems exampleHost newProvider))
   \<and> list_all isPlantItem (fst (getRootItems exampleHost newProvider))"
proof -
  have lc: "localeCompare exampleHost = collate" by (simp add: exampleHost_def)
  have t: "\<forall>a b. localeCompare exampleHost a b \<le> 0 \<or> localeCompare exampleHost b a \<le> 0"
    unfolding lc using collate_total by blast
  have g: "currentGroupBy newProvider = GroupNone" by (simp add: newProvider_def)
  from t g flat_list_sorted_by_localeCompare [OF t g] show ?thesis by blast
qed

section \<open>Properties of the report\<close>

lemma foldl_plus_sum_list:
  "foldl (\<lambda>sum p. sum + f p) a xs = a + sum_list (map f xs)" for a :: int
  by (induction xs arbitrary: a) auto

lemma sum_list_map_perm:
  "mset xs = mset ys \<Longrightarrow> sum_list (map f xs) = sum_list (map f ys)" for f :: "'a \<Rightarrow> int"
proof -
  assume "mset xs = mset ys"
  then have "sum_mset (mset (map f xs)) = sum_mset (mset (map f ys))" by simp
  then show ?thesis by (simp only: sum_mset_sum_list)
qed

lemma mset_withHealth_perm:
  "mset xs = mset ys \<Longrightarrow> mset (withHealth hl xs) = mset (withHealth hl ys)"
  by (simp add: withHealth_def)

lemma length_withHealth_perm:
  "mset xs = mset ys \<Longrightarrow> length (withHealth hl xs) = length (withHealth hl ys)"
  using mset_withHealth_perm [of xs ys hl] by (metis size_mset)

lemma exportReport_flat:
  "currentGroupBy s = GroupNone \<Longrightarrow>
   fst (exportReport h s) = summarize (arraySort (byLabel h plantLabel) (shownFiles h s))"
  by (simp add: exportReport_def getRootItems_def Let_def generateReport_def
      asPlantItems_map_Plant shownFiles_def fst_analyzeAll_filter)

text \<open>
  C2, as stated, fails: the report is computed from the root items of the view. With the
  filter \<open>critical\<close> the report of the small workspace counts 1 file of 4, and with
  grouping by type it counts none.
\<close>

theorem exportReport_not_full_set_counterexample:
  "length (analyzedFiles exampleHost (newProvider\<lparr> currentHealthFilter := FilterCritical \<rparr>)) = 4
   \<and> total (fst (exportReport exampleHost (newProvider\<lparr> currentHealthFilter := FilterCritical \<rparr>))) = 1
   \<and> length (analyzedFiles exampleHost (newProvider\<lparr> currentGroupBy := GroupType \<rparr>)) = 4
   \<and> total (fst (exportReport exampleHost (newProvider\<lparr> currentGroupBy := GroupType \<rparr>))) = 0"
  by code_simp

text \<open>
  C2, amended. Without grouping, the report is computed from the enumerated files that
  pass the current health filter: its total, its counts per verdict, its sums of size,
  lines and complexity and its critical and warning lines are those of these files. With
  the filter \<open>all\<close> these are all enumerated files.
\<close>

theorem exportReport_reports_shown_files:
  "currentGroupBy s = GroupNone \<Longrightarrow>
     total (fst (exportReport h s)) = length (shownFiles h s)
   \<and> healthyCount (fst (exportReport h s)) = length (withHealth Healthy (shownFiles h s))
   \<and> warningCount (fst (exportReport h s)) = length (withHealth Warning (shownFiles h s))
   \<and> criticalCount (fst (exportReport h s)) = length (withHealth Critical (shownFiles h s))
   \<and> totalSize (fst (exportReport h s)) = sum_list (map (\<lambda>p. fsize (metrics p)) (shownFiles h s))
   \<and> totalLines (fst (exportReport h s)) = sum_list (map (\<lambda>p. lines (metrics p)) (shownFiles h s))
   \<and> complexitySum (fst (exportReport h s))
        = sum_list (map (\<lambda>p. complexity (metrics p)) (shownFiles h s))
   \<and> mset (criticalFiles (fst (exportReport h s)))
        = mset (map bulletLine (withHealth Critical (shownFiles h s)))
   \<and> mset (warningFiles (fst (exportReport h s)))
        = mset (map bulletLine (withHealth Warning (shownFiles h s)))
   \<and> (currentHealthFilter s = FilterAll \<longrightarrow> shownFiles h s = analyzedFiles h s)"
proof -
  assume gb: "currentGroupBy s = GroupNone"
  let ?sorted = "arraySort (byLabel h plantLabel) (shownFiles h s)"
  have r: "fst (exportReport h s) = summarize ?sorted" by (rule exportReport_flat [OF gb])
  have p: "mset ?sorted = mset (shownFiles h s)" by (rule mset_arraySort)
  have "total (summarize ?sorted) = length (shownFiles h s)"
    by (simp add: summarize_def length_arraySort)
  moreover have "healthyCount (summarize ?sorted) = length (withHealth Healthy (shownFiles h s))"
    by (simp add: summarize_def length_withHealth_perm [OF p])
  moreover have "warningCount (summarize ?sorted) = length (withHealth Warning (shownFiles h s))"
    by (simp add: summarize_def length_withHealth_perm [OF p])
  moreover have "criticalCount (summarize ?sorted) = length (withHealth Critical (shownFiles h s))"
    by (simp add: summarize_def length_withHealth_perm [OF p])
  moreover have "totalSize (summarize ?sorted) = sum_list (map (\<lambda>p. fsize (metrics p)) (shownFiles h s))"
    by (simp add: summarize_def foldl_plus_sum_list sum_list_map_perm [OF p])
  moreover have "totalLines (summarize ?sorted) = sum_list (map (\<lambda>p. lines (metrics p)) (shownFiles h s))"
    by (simp add: summarize_def foldl_plus_sum_list sum_list_map_perm [OF p])
  moreover have "complexitySum (summarize ?sorted)
      = sum_list (map (\<lambda>p. complexity (metrics p)) (shownFiles h s))"
    by (simp add: summarize_def foldl_plus_sum_list sum_list_map_perm [OF p])
  moreover have "mset (criticalFiles (summarize ?sorted))
      = mset (map bulletLine (withHealth Critical (shownFiles h s)))"
    using mset_withHealth_perm [OF p, of Critical] by (simp add: summarize_def)
  moreover have "mset (warningFiles (summarize ?sorted))
      = mset (map bulletLine (withHealth Warning (shownFiles h s)))"
    using mset_withHealth_perm [OF p, of Warning] by (simp add: summarize_def)
  moreover have "currentHealthFilter s = FilterAll \<longrightarrow> shownFiles h s = analyzedFiles h s"
    by (simp add: shownFiles_def)
  ultimately show ?thesis by (simp only: r) 
qed

theorem exportReport_reports_shown_files_witness:
  "currentGroupBy (newProvider\<lparr> currentHealthFilter := FilterCritical \<rparr>) = GroupNone
   \<and> total (fst (exportReport exampleHost (newProvider\<lparr> currentHealthFilter := FilterCritical \<rparr>)))
       = length (shownFiles exampleHost (newProvider\<lparr> currentHealthFilter := FilterCritical \<rparr>))
   \<and> length (shownFiles exampleHost (newProvider\<lparr> currentHealthFilter := FilterCritical \<rparr>)) = 1
   \<and> criticalCount (fst (exportReport exampleHost (newProvider\<lparr> currentHealthFilter := FilterCritical \<rparr>)))
       = length (withHealth Critical (shownFiles exampleHost (newProvider\<lparr> currentHealthFilter := FilterCritical \<rparr>)))"
proof -
  have h: "currentGroupBy (newProvider\<lparr> currentHealthFilter := FilterCritical \<rparr>) = GroupNone"
    by (simp add: newProvider_def)
  have n: "length (shownFiles exampleHost (newProvider\<lparr> currentHealthFilter := FilterCritical \<rparr>)) = 1"
    by code_simp
  from h n exportReport_reports_shown_files [OF h, of exampleHost] show ?thesis by simp
qed

section \<open>Properties of the debouncer\<close>

lemma timerDelay_pos: "1 \<le> timerDelay d"
  by (simp add: timerDelay_def)

lemma notify_first:
  "debounceTimer s = None \<Longrightarrow>
   debounceTimer (notify d s t) = Some (t + timerDelay d) \<and> refreshes (notify d s t) = refreshes s"
  by (simp add: notify_def runTimers_def debouncedRefresh_def)

lemma notify_pending:
  "debounceTimer s = Some due \<Longrightarrow> t < due \<Longrightarrow>
   debounceTimer (notify d s t) = Some (t + timerDelay d) \<and> refreshes (notify d s t) = refreshes s"
  by (simp add: notify_def runTimers_def debouncedRefresh_def)

lemma burst_pending:
  "burst (timerDelay d) (t # ts) \<Longrightarrow> debounceTimer s = Some (t + timerDelay d) \<Longrightarrow>
   debounceTimer (foldl (notify d) s ts) = Some (last (t # ts) + timerDelay d)
   \<and> refreshes (foldl (notify d) s ts) = refreshes s"
proof (induction ts arbitrary: t s)
  case Nil
  then show ?case by simp
next
  case (Cons u us)
  from Cons.prems have b: "burst (timerDelay d) (u # us)" and lt: "u < t + timerDelay d"
    by simp_all
  from notify_pending [OF Cons.prems(2) lt, of d]
  have n: "debounceTimer (notify d s u) = Some (u + timerDelay d)"
    "refreshes (notify d s u) = refreshes s" by simp_all
  from Cons.IH [OF b n(1)] n(2) show ?case by simp
qed

text \<open>
  In terms of the delay that \<open>setTimeout\<close> really uses: from a state without a pending
  timer, a burst fires no refresh while it lasts and exactly one afterwards.
\<close>

lemma burst_settles_once:
  "ts \<noteq> [] \<Longrightarrow> burst (timerDelay d) ts \<Longrightarrow> debounceTimer s = None \<Longrightarrow>
   refreshes (notifyAll d ts s) = refreshes s
   \<and> refreshes (settle (notifyAll d ts s)) = refreshes s @ [last ts + timerDelay d]
   \<and> last ts < last ts + timerDelay d"
proof -
  assume ne: "ts \<noteq> []" and b: "burst (timerDelay d) ts" and s: "debounceTimer s = None"
  from ne obtain t us where ts: "ts = t # us" by (cases ts) auto
  from notify_first [OF s, of d t]
  have n: "debounceTimer (notify d s t) = Some (t + timerDelay d)"
    "refreshes (notify d s t) = refreshes s" by simp_all
  from burst_pending [OF b [unfolded ts] n(1)] n(2)
  have "debounceTimer (notifyAll d ts s) = Some (last ts + timerDelay d)"
    "refreshes (notifyAll d ts s) = refreshes s"
    by (simp_all add: notifyAll_def ts)
  then show ?thesis using timerDelay_pos [of d]
    by (simp add: settle_def refresh_def)
qed

text \<open>
  C9, as stated, fails: the configured delay is not validated, and \<open>setTimeout\<close>
  replaces a delay above \<open>2^31 - 1\<close> by 1 millisecond. With a configured delay of
  \<open>2^31\<close> milliseconds, two notifications 10 milliseconds apart are well within the
  configured quiet window, and each of them fires a refresh of its own, at times 1 and 11.
\<close>

theorem debounce_delay_clamped_counterexample:
  "[0, 10] \<noteq> ([] :: int list)
   \<and> burst 2147483648 [0, 10]
   \<and> debounceTimer newProvider = None
   \<and> refreshes newProvider = []
   \<and> refreshes (settle (notifyAll 2147483648 [0, 10] newProvider)) = [1, 11]"
  by (simp add: notifyAll_def notify_def runTimers_def debouncedRefresh_def timerDelay_def
      settle_def refresh_def newProvider_def)

text \<open>
  C9, amended. For a configured delay between 1 and \<open>2^31 - 1\<close> milliseconds and from a
  state without a pending timer, a burst of one or more notifications, each less than
  the configured delay after the one before, fires no refresh while it lasts and exactly
  one afterwards, the configured delay after the last notification.
\<close>

theorem debounce_burst_one_refresh:
  "1 \<le> d \<Longrightarrow> d \<le> 2147483647 \<Longrightarrow> ts \<noteq> [] \<Longrightarrow> burst d ts \<Longrightarrow> debounceTimer s = None \<Longrightarrow>
   refreshes (notifyAll d ts s) = refreshes s
   \<and> refreshes (settle (notifyAll d ts s)) = refreshes s @ [last ts + d]
   \<and> last ts < last ts + d"
proof -
  assume lo: "1 \<le> d" and hi: "d \<le> 2147483647"
    and ne: "ts \<noteq> []" and b: "burst d ts" and s: "debounceTimer s = None"
  from lo hi have w: "timerDelay d = d" by (simp add: timerDelay_def)
  from b have b': "burst (timerDelay d) ts" by (simp only: w)
  from burst_settles_once [OF ne b' s] show ?thesis by (simp only: w)
qed

theorem debounce_burst_one_refresh_witness:
  "(1::int) \<le> 300 \<and> (300::int) \<le> 2147483647
   \<and> [0, 10, 20, 30, 40, 50, 60, 70, 80, 90] \<noteq> ([] :: int list)
   \<and> burst 300 [0, 10, 20, 30, 40, 50, 60, 70, 80, 90]
   \<and> debounceTimer newProvider = None
   \<and> refreshes (notifyAll 300 [0, 10, 20, 30, 40, 50, 60, 70, 80, 90] newProvider) = []
   \<and> refreshes (settle (notifyAll 300 [0, 10, 20, 30, 40, 50, 60, 70, 80, 90] newProvider)) = [390]"
proof -
  have lo: "(1::int) \<le> 300" and hi: "(300::int) \<le> 2147483647" by simp_all
  have n: "[0, 10, 20, 30, 40, 50, 60, 70, 80, 90] \<noteq> ([] :: int list)" by simp
  have b: "burst 300 [0, 10, 20, 30, 40, 50, 60, 70, 80, 90]" by simp
  have s: "debounceTimer newProvider = None" "refreshes newProvider = []"
    by (simp_all add: newProvider_def)
  from lo hi n b s debounce_burst_one_refresh [OF lo hi n b s(1)] show ?thesis by simp
qed

end
